theory Spec2Isabelle
  imports Main "HOL-Library.State_Monad"
begin

section \<open>Provider formatting helpers of the runtime's base adapter\<close>

text \<open>
  A shallow embedding of \<^verbatim>\<open>packages/runtime/src/adapters/base.ts\<close>: the functions
  that turn canonical messages, attachments and action definitions into the wire
  formats of the two provider families.

  JavaScript strings are modelled as \<^typ>\<open>string\<close>; every string operation the source
  uses (\<^verbatim>\<open>startsWith\<close>, \<^verbatim>\<open>indexOf\<close>, \<^verbatim>\<open>slice\<close>, template concatenation) works
  element by element, so the element type does not matter.  An optional field
  \<^verbatim>\<open>f?: T\<close> is an \<^typ>\<open>'a option\<close>; truthiness tests are written out.
\<close>

subsection \<open>JavaScript primitives used by the source\<close>

text \<open>\<^verbatim>\<open>if (s)\<close> for a string: the empty string is falsy.\<close>

definition truthy :: "string \<Rightarrow> bool" where
  "truthy s = (s \<noteq> [])"

text \<open>
  \<^verbatim>\<open>s || d\<close> for an optional string \<^verbatim>\<open>s\<close>: \<^verbatim>\<open>undefined\<close> and the empty string
  are falsy.
\<close>

definition or_else :: "string option \<Rightarrow> string \<Rightarrow> string" where
  "or_else s d = (case s of None \<Rightarrow> d | Some v \<Rightarrow> if truthy v then v else d)"

text \<open>\<^verbatim>\<open>s.startsWith(p)\<close>.\<close>

definition startsWith :: "string \<Rightarrow> string \<Rightarrow> bool" where
  "startsWith s p = (take (length p) s = p)"

text \<open>
  \<^verbatim>\<open>s.indexOf(c)\<close> for a one-character search string: the position of the first
  occurrence, or \<open>-1\<close>.
\<close>

fun indexOf_from :: "string \<Rightarrow> char \<Rightarrow> int \<Rightarrow> int" where
  "indexOf_from [] c i = - 1"
| "indexOf_from (x # xs) c i = (if x = c then i else indexOf_from xs c (i + 1))"

definition indexOf :: "string \<Rightarrow> char \<Rightarrow> int" where
  "indexOf s c = indexOf_from s c 0"

text \<open>\<^verbatim>\<open>s.slice(start)\<close>: a negative start counts from the end, and both ends clamp.\<close>

definition slice :: "string \<Rightarrow> int \<Rightarrow> string" where
  "slice s start =
     (if start < 0 then drop (nat (max (int (length s) + start) 0)) s
      else drop (nat start) s)"

subsection \<open>Canonical data\<close>

text \<open>
  \<^verbatim>\<open>Message\<close> and \<^verbatim>\<open>MessageAttachment\<close> are declared in the core package; the
  fields below are the ones this file reads.  Roles and attachment types are the
  string tags the source compares against.
\<close>

record MessageAttachment =
  att_type :: string
  att_data :: string
  mimeType :: "string option"

record Message =
  role :: string
  content :: string
  attachments :: "MessageAttachment list option"

subsection \<open>Provider content blocks\<close>

record AnthropicSource =
  source_type :: string
  media_type :: string
  source_data :: string

datatype AnthropicContentBlock =
    AnthropicText string
  | AnthropicImage AnthropicSource

record OpenAIImageUrl =
  url :: string
  detail :: "string option"

datatype OpenAIContentBlock =
    OpenAIText string
  | OpenAIImage OpenAIImageUrl

text \<open>The union \<^verbatim>\<open>string | Block[]\<close> of a formatted message's content.\<close>

datatype 'b MessageContent =
    PlainString string
  | ContentBlocks "'b list"

record 'c FormattedMessage =
  out_role :: string
  out_content :: 'c

record AnthropicRequest =
  system :: string
  messages :: "AnthropicContentBlock MessageContent FormattedMessage list"

subsection \<open>formatMessages\<close>

fun formatMessages_loop ::
  "Message list \<Rightarrow> string FormattedMessage list \<Rightarrow> string FormattedMessage list" where
  "formatMessages_loop [] formatted = formatted"
| "formatMessages_loop (msg # rest) formatted =
     formatMessages_loop rest
       (formatted @ [\<lparr>out_role = role msg, out_content = content msg\<rparr>])"

definition formatMessages ::
  "Message list \<Rightarrow> string option \<Rightarrow> string FormattedMessage list" where
  "formatMessages msgs systemPrompt =
     formatMessages_loop msgs
       (case systemPrompt of
          Some sp \<Rightarrow>
            if truthy sp then [\<lparr>out_role = ''system'', out_content = sp\<rparr>] else []
        | None \<Rightarrow> [])"

subsection \<open>Tool schemas\<close>

text \<open>
  The output of \<^verbatim>\<open>formatTools\<close> is a plain JavaScript object tree
  (\<^verbatim>\<open>Record<string, unknown>\<close>).  An object is the list of its own properties
  in insertion order, so that an omitted property and a present one differ.
\<close>

datatype json =
    JString string
  | JArray "json list"
  | JObject "(string \<times> json) list"

text \<open>Property access \<^verbatim>\<open>obj[key]\<close>: \<open>None\<close> is \<^verbatim>\<open>undefined\<close>.\<close>

fun field :: "json \<Rightarrow> string \<Rightarrow> json option" where
  "field (JObject fs) key = map_of fs key"
| "field _ key = None"

text \<open>
  \<^verbatim>\<open>ActionParameter\<close>: the shape \<^verbatim>\<open>parameterToJsonSchema\<close> declares for its
  argument, with the \<^verbatim>\<open>required\<close> flag that \<^verbatim>\<open>formatTools\<close> reads.  An object's
  \<^verbatim>\<open>properties\<close> are its entries in \<^verbatim>\<open>Object.entries\<close> order.
\<close>

datatype ActionParameter =
  ActionParameter
    (param_type: string)
    (param_description: "string option")
    (param_enum: "string list option")
    (param_items: "ActionParameter option")
    (param_properties: "(string \<times> ActionParameter) list option")
    (param_required: "bool option")

record ActionDefinition =
  name :: string
  description :: string
  parameters :: "(string \<times> ActionParameter) list option"

fun parameterToJsonSchema :: "ActionParameter \<Rightarrow> (string \<times> json) list" where
  "parameterToJsonSchema (ActionParameter ty descr enum items props req) =
     [(''type'', JString ty)]
     @ (case descr of
          Some d \<Rightarrow> if truthy d then [(''description'', JString d)] else []
        | None \<Rightarrow> [])
     @ (case enum of Some e \<Rightarrow> [(''enum'', JArray (map JString e))] | None \<Rightarrow> [])
     @ (if ty = ''array''
        then (case items of
                Some it \<Rightarrow> [(''items'', JObject (parameterToJsonSchema it))]
              | None \<Rightarrow> [])
        else [])
     @ (if ty = ''object''
        then (case props of
                Some ps \<Rightarrow>
                  [(''properties'',
                    JObject (map (\<lambda>(key, prop). (key, JObject (parameterToJsonSchema prop))) ps))]
              | None \<Rightarrow> [])
        else [])"

definition formatTools :: "ActionDefinition list \<Rightarrow> json list" where
  "formatTools actions =
     map (\<lambda>action.
       JObject
         [(''type'', JString ''function''),
          (''function'',
           JObject
             [(''name'', JString (name action)),
              (''description'', JString (description action)),
              (''parameters'',
               JObject
                 [(''type'', JString ''object''),
                  (''properties'',
                   (case parameters action of
                      Some ps \<Rightarrow>
                        JObject (map (\<lambda>(key, param). (key, JObject (parameterToJsonSchema param))) ps)
                    | None \<Rightarrow> JObject [])),
                  (''required'',
                   (case parameters action of
                      Some ps \<Rightarrow>
                        JArray (map (\<lambda>(key, param). JString key)
                          (filter (\<lambda>(key, param). param_required param = Some True) ps))
                    | None \<Rightarrow> JArray []))])])])
       actions"

subsection \<open>Vision support\<close>

definition hasImageAttachments :: "Message \<Rightarrow> bool" where
  "hasImageAttachments message =
     (case attachments message of
        None \<Rightarrow> False
      | Some atts \<Rightarrow> list_ex (\<lambda>a. att_type a = ''image'') atts)"

definition attachmentToAnthropicImage ::
  "MessageAttachment \<Rightarrow> AnthropicContentBlock option" where
  "attachmentToAnthropicImage attachment =
     (if att_type attachment \<noteq> ''image'' then None
      else
        let base64Data = att_data attachment;
            base64Data =
              (if startsWith base64Data ''data:''
               then
                 let commaIndex = indexOf base64Data (CHR '','')
                 in if commaIndex \<noteq> - 1 then slice base64Data (commaIndex + 1)
                    else base64Data
               else base64Data)
        in Some (AnthropicImage
             \<lparr>source_type = ''base64'',
              media_type = or_else (mimeType attachment) ''image/png'',
              source_data = base64Data\<rparr>))"

definition attachmentToOpenAIImage ::
  "MessageAttachment \<Rightarrow> OpenAIContentBlock option" where
  "attachmentToOpenAIImage attachment =
     (if att_type attachment \<noteq> ''image'' then None
      else
        let dataUri = att_data attachment;
            dataUri =
              (if \<not> startsWith dataUri ''data:''
               then
                 let mime = or_else (mimeType attachment) ''image/png''
                 in ''data:'' @ mime @ '';base64,'' @ att_data attachment
               else dataUri)
        in Some (OpenAIImage \<lparr>url = dataUri, detail = Some ''auto''\<rparr>))"

fun anthropic_push_images ::
  "MessageAttachment list \<Rightarrow> AnthropicContentBlock list \<Rightarrow> AnthropicContentBlock list" where
  "anthropic_push_images [] blocks = blocks"
| "anthropic_push_images (attachment # rest) blocks =
     (case attachmentToAnthropicImage attachment of
        Some imageBlock \<Rightarrow> anthropic_push_images rest (blocks @ [imageBlock])
      | None \<Rightarrow> anthropic_push_images rest blocks)"

definition messageToAnthropicContent ::
  "Message \<Rightarrow> AnthropicContentBlock MessageContent" where
  "messageToAnthropicContent message =
     (if \<not> hasImageAttachments message then PlainString (content message)
      else
        let blocks = [];
            blocks =
              (case attachments message of
                 Some atts \<Rightarrow> anthropic_push_images atts blocks
               | None \<Rightarrow> blocks);
            blocks =
              (if truthy (content message) then blocks @ [AnthropicText (content message)]
               else blocks)
        in ContentBlocks blocks)"

fun openai_push_images ::
  "MessageAttachment list \<Rightarrow> OpenAIContentBlock list \<Rightarrow> OpenAIContentBlock list" where
  "openai_push_images [] blocks = blocks"
| "openai_push_images (attachment # rest) blocks =
     (case attachmentToOpenAIImage attachment of
        Some imageBlock \<Rightarrow> openai_push_images rest (blocks @ [imageBlock])
      | None \<Rightarrow> openai_push_images rest blocks)"

definition messageToOpenAIContent ::
  "Message \<Rightarrow> OpenAIContentBlock MessageContent" where
  "messageToOpenAIContent message =
     (if \<not> hasImageAttachments message then PlainString (content message)
      else
        let blocks = [];
            blocks =
              (if truthy (content message) then blocks @ [OpenAIText (content message)]
               else blocks);
            blocks =
              (case attachments message of
                 Some atts \<Rightarrow> openai_push_images atts blocks
               | None \<Rightarrow> blocks)
        in ContentBlocks blocks)"

fun formatMessagesForAnthropic_loop ::
  "Message list \<Rightarrow> AnthropicContentBlock MessageContent FormattedMessage list
     \<Rightarrow> AnthropicContentBlock MessageContent FormattedMessage list" where
  "formatMessagesForAnthropic_loop [] formatted = formatted"
| "formatMessagesForAnthropic_loop (msg # rest) formatted =
     (if role msg = ''system'' then formatMessagesForAnthropic_loop rest formatted
      else formatMessagesForAnthropic_loop rest
        (formatted @
          [\<lparr>out_role = (if role msg = ''assistant'' then ''assistant'' else ''user''),
            out_content = messageToAnthropicContent msg\<rparr>]))"

definition formatMessagesForAnthropic :: "Message list \<Rightarrow> string option \<Rightarrow> AnthropicRequest" where
  "formatMessagesForAnthropic msgs systemPrompt =
     \<lparr>system = or_else systemPrompt '''',
      messages = formatMessagesForAnthropic_loop msgs []\<rparr>"

fun formatMessagesForOpenAI_loop ::
  "Message list \<Rightarrow> OpenAIContentBlock MessageContent FormattedMessage list
     \<Rightarrow> OpenAIContentBlock MessageContent FormattedMessage list" where
  "formatMessagesForOpenAI_loop [] formatted = formatted"
| "formatMessagesForOpenAI_loop (msg # rest) formatted =
     formatMessagesForOpenAI_loop rest
       (formatted @ [\<lparr>out_role = role msg, out_content = messageToOpenAIContent msg\<rparr>])"

definition formatMessagesForOpenAI ::
  "Message list \<Rightarrow> string option \<Rightarrow> OpenAIContentBlock MessageContent FormattedMessage list" where
  "formatMessagesForOpenAI msgs systemPrompt =
     formatMessagesForOpenAI_loop msgs
       (case systemPrompt of
          Some sp \<Rightarrow>
            if truthy sp then [\<lparr>out_role = ''system'', out_content = PlainString sp\<rparr>]
            else []
        | None \<Rightarrow> [])"

section \<open>The same functions over a store of objects\<close>

text \<open>
  Messages and attachments are JavaScript objects, passed by reference.  To say
  what a call does to its arguments, the vision functions are written once more
  over a store that holds the objects: an argument is a reference, every property
  access is a read of the store, and the store after the call is part of the
  result.  The local variables of the source (\<^verbatim>\<open>base64Data\<close>, \<^verbatim>\<open>dataUri\<close>,
  \<^verbatim>\<open>blocks\<close>) stay local values.
\<close>

type_synonym ref = nat

record MessageObject =
  obj_role :: string
  obj_content :: string
  obj_attachments :: "ref list option"

record Store =
  attachment_at :: "ref \<Rightarrow> MessageAttachment"
  message_at :: "ref \<Rightarrow> MessageObject"

text \<open>The message a reference denotes in a store, with its attachments read out.\<close>

definition message_of :: "Store \<Rightarrow> ref \<Rightarrow> Message" where
  "message_of s r =
     \<lparr>role = obj_role (message_at s r),
      content = obj_content (message_at s r),
      attachments = map_option (map (attachment_at s)) (obj_attachments (message_at s r))\<rparr>"

text \<open>Property reads \<^verbatim>\<open>attachment.f\<close> and \<^verbatim>\<open>message.f\<close>.\<close>

definition read_attachment :: "ref \<Rightarrow> (MessageAttachment \<Rightarrow> 'a) \<Rightarrow> (Store, 'a) state" where
  "read_attachment r f = State (\<lambda>s. (f (attachment_at s r), s))"

definition read_message :: "ref \<Rightarrow> (MessageObject \<Rightarrow> 'a) \<Rightarrow> (Store, 'a) state" where
  "read_message r f = State (\<lambda>s. (f (message_at s r), s))"

fun some_image_st :: "ref list \<Rightarrow> (Store, bool) state" where
  "some_image_st [] = State_Monad.return False"
| "some_image_st (a # rest) = do {
     ty \<leftarrow> read_attachment a att_type;
     if ty = ''image'' then State_Monad.return True else some_image_st rest
   }"

definition hasImageAttachments_st :: "ref \<Rightarrow> (Store, bool) state" where
  "hasImageAttachments_st message = do {
     atts \<leftarrow> read_message message obj_attachments;
     case atts of
       None \<Rightarrow> State_Monad.return False
     | Some refs \<Rightarrow> some_image_st refs
   }"

definition attachmentToAnthropicImage_st ::
  "ref \<Rightarrow> (Store, AnthropicContentBlock option) state" where
  "attachmentToAnthropicImage_st attachment = do {
     ty \<leftarrow> read_attachment attachment att_type;
     if ty \<noteq> ''image'' then State_Monad.return None
     else do {
       base64Data \<leftarrow> read_attachment attachment att_data;
       let base64Data =
             (if startsWith base64Data ''data:''
              then
                let commaIndex = indexOf base64Data (CHR '','')
                in if commaIndex \<noteq> - 1 then slice base64Data (commaIndex + 1)
                   else base64Data
              else base64Data);
       mime \<leftarrow> read_attachment attachment mimeType;
       State_Monad.return (Some (AnthropicImage
         \<lparr>source_type = ''base64'',
          media_type = or_else mime ''image/png'',
          source_data = base64Data\<rparr>))
     }
   }"

definition attachmentToOpenAIImage_st ::
  "ref \<Rightarrow> (Store, OpenAIContentBlock option) state" where
  "attachmentToOpenAIImage_st attachment = do {
     ty \<leftarrow> read_attachment attachment att_type;
     if ty \<noteq> ''image'' then State_Monad.return None
     else do {
       dataUri \<leftarrow> read_attachment attachment att_data;
       dataUri \<leftarrow>
         (if \<not> startsWith dataUri ''data:''
          then do {
            mime \<leftarrow> read_attachment attachment mimeType;
            payload \<leftarrow> read_attachment attachment att_data;
            State_Monad.return (''data:'' @ or_else mime ''image/png'' @ '';base64,'' @ payload)
          }
          else State_Monad.return dataUri);
       State_Monad.return (Some (OpenAIImage \<lparr>url = dataUri, detail = Some ''auto''\<rparr>))
     }
   }"

fun anthropic_push_images_st ::
  "ref list \<Rightarrow> AnthropicContentBlock list \<Rightarrow> (Store, AnthropicContentBlock list) state" where
  "anthropic_push_images_st [] blocks = State_Monad.return blocks"
| "anthropic_push_images_st (attachment # rest) blocks = do {
     imageBlock \<leftarrow> attachmentToAnthropicImage_st attachment;
     anthropic_push_images_st rest
       (case imageBlock of Some b \<Rightarrow> blocks @ [b] | None \<Rightarrow> blocks)
   }"

definition messageToAnthropicContent_st ::
  "ref \<Rightarrow> (Store, AnthropicContentBlock MessageContent) state" where
  "messageToAnthropicContent_st message = do {
     hasImages \<leftarrow> hasImageAttachments_st message;
     if \<not> hasImages then do {
       text \<leftarrow> read_message message obj_content;
       State_Monad.return (PlainString text)
     }
     else do {
       atts \<leftarrow> read_message message obj_attachments;
       blocks \<leftarrow>
         (case atts of
            Some refs \<Rightarrow> anthropic_push_images_st refs []
          | None \<Rightarrow> State_Monad.return []);
       text \<leftarrow> read_message message obj_content;
       State_Monad.return
         (ContentBlocks (if truthy text then blocks @ [AnthropicText text] else blocks))
     }
   }"

fun openai_push_images_st ::
  "ref list \<Rightarrow> OpenAIContentBlock list \<Rightarrow> (Store, OpenAIContentBlock list) state" where
  "openai_push_images_st [] blocks = State_Monad.return blocks"
| "openai_push_images_st (attachment # rest) blocks = do {
     imageBlock \<leftarrow> attachmentToOpenAIImage_st attachment;
     openai_push_images_st rest
       (case imageBlock of Some b \<Rightarrow> blocks @ [b] | None \<Rightarrow> blocks)
   }"

definition messageToOpenAIContent_st ::
  "ref \<Rightarrow> (Store, OpenAIContentBlock MessageContent) state" where
  "messageToOpenAIContent_st message = do {
     hasImages \<leftarrow> hasImageAttachments_st message;
     if \<not> hasImages then do {
       text \<leftarrow> read_message message obj_content;
       State_Monad.return (PlainString text)
     }
     else do {
       text \<leftarrow> read_message message obj_content;
       let blocks = (if truthy text then [OpenAIText text] else []);
       atts \<leftarrow> read_message message obj_attachments;
       case atts of
         Some refs \<Rightarrow> do {
           blocks \<leftarrow> openai_push_images_st refs blocks;
           State_Monad.return (ContentBlocks blocks)
         }
       | None \<Rightarrow> State_Monad.return (ContentBlocks blocks)
     }
   }"

section \<open>Reading provider content back\<close>

text \<open>
  The reading side of the round trip.  These definitions are no code of the
  adapter: they follow the specification's words for how a provider's content is
  taken apart again, namely the text block's text, the image block's payload and
  media type, and for a URI of the form \<^verbatim>\<open>data:<media type>;base64,<payload>\<close>
  the two parts around the prefix.
\<close>

record ImageRef =
  ref_payload :: string
  ref_media_type :: "string option"

text \<open>
  A data URI is \<^verbatim>\<open>data:\<close>, a header up to the first comma, and the payload after
  it; the media type is the header without a closing \<^verbatim>\<open>;base64\<close>.
\<close>

definition spec_parse_data_uri :: "string \<Rightarrow> (string \<times> string) option" where
  "spec_parse_data_uri u =
     (if startsWith u ''data:'' \<and> CHR '','' \<in> set u
      then
        let rest = drop 5 u;
            header = takeWhile (\<lambda>c. c \<noteq> CHR '','') rest;
            payload = drop 1 (dropWhile (\<lambda>c. c \<noteq> CHR '','') rest);
            n = length header - 7
        in Some (if drop n header = '';base64'' then take n header else header, payload)
      else None)"

text \<open>The base64 payload an attachment carries, with or without a data-URI prefix.\<close>

definition spec_payload :: "string \<Rightarrow> string" where
  "spec_payload d = (case spec_parse_data_uri d of Some (mt, p) \<Rightarrow> p | None \<Rightarrow> d)"

definition spec_image_of_attachment :: "MessageAttachment \<Rightarrow> ImageRef" where
  "spec_image_of_attachment a =
     \<lparr>ref_payload = spec_payload (att_data a), ref_media_type = mimeType a\<rparr>"

definition spec_image_of_url :: "string \<Rightarrow> ImageRef" where
  "spec_image_of_url u =
     (case spec_parse_data_uri u of
        Some (mt, p) \<Rightarrow> \<lparr>ref_payload = p, ref_media_type = Some mt\<rparr>
      | None \<Rightarrow> \<lparr>ref_payload = u, ref_media_type = None\<rparr>)"

fun spec_anthropic_text :: "AnthropicContentBlock \<Rightarrow> string" where
  "spec_anthropic_text (AnthropicText t) = t"
| "spec_anthropic_text (AnthropicImage src) = []"

fun spec_anthropic_image :: "AnthropicContentBlock \<Rightarrow> ImageRef option" where
  "spec_anthropic_image (AnthropicText t) = None"
| "spec_anthropic_image (AnthropicImage src) =
     Some \<lparr>ref_payload = source_data src, ref_media_type = Some (media_type src)\<rparr>"

fun spec_parse_anthropic :: "AnthropicContentBlock MessageContent \<Rightarrow> string \<times> ImageRef list" where
  "spec_parse_anthropic (PlainString t) = (t, [])"
| "spec_parse_anthropic (ContentBlocks bs) =
     (concat (map spec_anthropic_text bs), List.map_filter spec_anthropic_image bs)"

fun spec_openai_text :: "OpenAIContentBlock \<Rightarrow> string" where
  "spec_openai_text (OpenAIText t) = t"
| "spec_openai_text (OpenAIImage u) = []"

fun spec_openai_image :: "OpenAIContentBlock \<Rightarrow> ImageRef option" where
  "spec_openai_image (OpenAIText t) = None"
| "spec_openai_image (OpenAIImage u) = Some (spec_image_of_url (url u))"

fun spec_parse_openai :: "OpenAIContentBlock MessageContent \<Rightarrow> string \<times> ImageRef list" where
  "spec_parse_openai (PlainString t) = (t, [])"
| "spec_parse_openai (ContentBlocks bs) =
     (concat (map spec_openai_text bs), List.map_filter spec_openai_image bs)"

subsection \<open>Paths into parameters and schemas\<close>

text \<open>
  To speak about a parameter nested at any depth: a path steps into an array's
  \<^verbatim>\<open>items\<close> or into an object's property of a given name, on the parameter side
  (\<open>param_at\<close>, under the guards the conversion applies) and on the side of the
  produced schema (\<open>schema_at\<close>).
\<close>

datatype SchemaStep = Items | Property string

fun param_at :: "ActionParameter \<Rightarrow> SchemaStep list \<Rightarrow> ActionParameter option" where
  "param_at p [] = Some p"
| "param_at p (Items # path) =
     (if param_type p = ''array''
      then (case param_items p of Some it \<Rightarrow> param_at it path | None \<Rightarrow> None)
      else None)"
| "param_at p (Property key # path) =
     (if param_type p = ''object''
      then (case param_properties p of
              Some ps \<Rightarrow> (case map_of ps key of Some q \<Rightarrow> param_at q path | None \<Rightarrow> None)
            | None \<Rightarrow> None)
      else None)"

fun schema_at :: "json \<Rightarrow> SchemaStep list \<Rightarrow> json option" where
  "schema_at j [] = Some j"
| "schema_at j (Items # path) =
     (case field j ''items'' of Some it \<Rightarrow> schema_at it path | None \<Rightarrow> None)"
| "schema_at j (Property key # path) =
     (case field j ''properties'' of
        Some ps \<Rightarrow> (case field ps key of Some q \<Rightarrow> schema_at q path | None \<Rightarrow> None)
      | None \<Rightarrow> None)"

section \<open>Loop lemmas\<close>

lemma formatMessages_loop_eq:
  "formatMessages_loop msgs acc =
     acc @ map (\<lambda>m. \<lparr>out_role = role m, out_content = content m\<rparr>) msgs"
  by (induction msgs arbitrary: acc) simp_all

lemma formatMessagesForOpenAI_loop_eq:
  "formatMessagesForOpenAI_loop msgs acc =
     acc @ map (\<lambda>m. \<lparr>out_role = role m, out_content = messageToOpenAIContent m\<rparr>) msgs"
  by (induction msgs arbitrary: acc) simp_all

lemma formatMessagesForAnthropic_loop_eq:
  "formatMessagesForAnthropic_loop msgs acc =
     acc @ map (\<lambda>m. \<lparr>out_role = (if role m = ''assistant'' then ''assistant'' else ''user''),
                      out_content = messageToAnthropicContent m\<rparr>)
             (filter (\<lambda>m. role m \<noteq> ''system'') msgs)"
  by (induction msgs arbitrary: acc) simp_all

lemma anthropic_push_images_eq:
  "anthropic_push_images atts acc = acc @ List.map_filter attachmentToAnthropicImage atts"
  by (induction atts arbitrary: acc) (simp_all split: option.split)

lemma openai_push_images_eq:
  "openai_push_images atts acc = acc @ List.map_filter attachmentToOpenAIImage atts"
  by (induction atts arbitrary: acc) (simp_all split: option.split)

text \<open>The definitions a concrete evaluation unfolds.\<close>

lemmas adapter_defs =
  messageToOpenAIContent_def messageToAnthropicContent_def hasImageAttachments_def
  attachmentToOpenAIImage_def attachmentToAnthropicImage_def
  formatMessages_def formatMessagesForOpenAI_def formatMessagesForAnthropic_def
  startsWith_def indexOf_def slice_def or_else_def truthy_def Let_def

section \<open>String helpers\<close>


lemma startsWith_append: "startsWith (p @ r) p"
  by (simp add: startsWith_def)

lemma indexOf_from_takeWhile:
  "c \<in> set s \<Longrightarrow> indexOf_from s c i = i + int (length (takeWhile (\<lambda>x. x \<noteq> c) s))"
  by (induction s arbitrary: i) auto

lemma indexOf_from_absent: "c \<notin> set s \<Longrightarrow> indexOf_from s c i = - 1"
  by (induction s arbitrary: i) auto

lemma indexOf_from_found_ge: "c \<in> set s \<Longrightarrow> i \<le> indexOf_from s c i"
  by (simp add: indexOf_from_takeWhile)

lemma indexOf_absent_iff: "indexOf s c = - 1 \<longleftrightarrow> c \<notin> set s"
  using indexOf_from_found_ge [of c s 0] indexOf_from_absent [of c s 0]
  by (auto simp: indexOf_def)

lemma slice_after_first:
  "c \<in> set s \<Longrightarrow> slice s (indexOf s c + 1) = drop 1 (dropWhile (\<lambda>x. x \<noteq> c) s)"
  by (simp add: slice_def indexOf_def indexOf_from_takeWhile nat_add_distrib
        dropWhile_eq_drop drop_Suc tl_drop)

lemma dropWhile_until_first:
  "c \<notin> set h \<Longrightarrow> dropWhile (\<lambda>x. x \<noteq> c) (h @ c # r) = c # r"
  by (induction h) auto

lemma takeWhile_until_first:
  "c \<notin> set h \<Longrightarrow> takeWhile (\<lambda>x. x \<noteq> c) (h @ c # r) = h"
  by (induction h) auto

lemma slice_strips_prefix:
  "c \<notin> set h \<Longrightarrow> slice (h @ c # r) (indexOf (h @ c # r) c + 1) = r"
  by (simp add: slice_after_first dropWhile_until_first)

section \<open>Default media type\<close>

text \<open>
  C10.  For an image attachment whose \<^verbatim>\<open>mimeType\<close> is absent or empty,
  \<^verbatim>\<open>attachmentToAnthropicImage\<close> uses \<^verbatim>\<open>image/png\<close> as the media type, and
  \<^verbatim>\<open>attachmentToOpenAIImage\<close> builds the data URI with \<^verbatim>\<open>image/png\<close> when the
  payload does not already start with \<^verbatim>\<open>data:\<close>.
\<close>

theorem attachment_default_mime:
  "att_type a = ''image'' \<Longrightarrow> mimeType a = None \<or> mimeType a = Some [] \<Longrightarrow>
   (\<exists>src. attachmentToAnthropicImage a = Some (AnthropicImage src)
          \<and> media_type src = ''image/png'') \<and>
   (\<not> startsWith (att_data a) ''data:'' \<longrightarrow>
      (\<exists>u. attachmentToOpenAIImage a = Some (OpenAIImage u)
           \<and> url u = ''data:image/png;base64,'' @ att_data a))"
  by (auto simp: attachmentToAnthropicImage_def attachmentToOpenAIImage_def or_else_def truthy_def Let_def)

theorem attachment_default_mime_witness:
  "attachmentToAnthropicImage \<lparr>att_type = ''image'', att_data = ''QUJD'', mimeType = None\<rparr>
     = Some (AnthropicImage
         \<lparr>source_type = ''base64'', media_type = ''image/png'', source_data = ''QUJD''\<rparr>)
   \<and> attachmentToOpenAIImage \<lparr>att_type = ''image'', att_data = ''QUJD'', mimeType = Some []\<rparr>
     = Some (OpenAIImage \<lparr>url = ''data:image/png;base64,QUJD'', detail = Some ''auto''\<rparr>)"
proof -
  let ?a = "\<lparr>att_type = ''image'', att_data = ''QUJD'', mimeType = None\<rparr>"
  let ?b = "\<lparr>att_type = ''image'', att_data = ''QUJD'', mimeType = Some []\<rparr>"
  have a1: "att_type ?a = ''image''" and b1: "att_type ?b = ''image''" by simp_all
  have a2: "mimeType ?a = None \<or> mimeType ?a = Some []"
    and b2: "mimeType ?b = None \<or> mimeType ?b = Some []" by simp_all
  have b3: "\<not> startsWith (att_data ?b) ''data:''" by (simp add: startsWith_def)
  from attachment_default_mime [OF a1 a2] attachment_default_mime [OF b1 b2] b3
  show ?thesis
    by (auto simp: attachmentToAnthropicImage_def attachmentToOpenAIImage_def Let_def
          startsWith_def)
qed

lemma map_filter_image_nonempty_anthropic:
  "List.map_filter attachmentToAnthropicImage atts = [] \<longleftrightarrow>
     \<not> list_ex (\<lambda>a. att_type a = ''image'') atts"
  by (induction atts)
     (auto simp: List.map_filter_simps attachmentToAnthropicImage_def Let_def split: option.split)

lemma map_filter_image_nonempty_openai:
  "List.map_filter attachmentToOpenAIImage atts = [] \<longleftrightarrow>
     \<not> list_ex (\<lambda>a. att_type a = ''image'') atts"
  by (induction atts)
     (auto simp: List.map_filter_simps attachmentToOpenAIImage_def Let_def split: option.split)

lemma map_filter_anthropic_images:
  "b \<in> set (List.map_filter attachmentToAnthropicImage atts) \<Longrightarrow> \<exists>src. b = AnthropicImage src"
  by (auto simp: List.map_filter_def attachmentToAnthropicImage_def Let_def split: if_splits)

lemma map_filter_openai_images:
  "b \<in> set (List.map_filter attachmentToOpenAIImage atts) \<Longrightarrow> \<exists>u. b = OpenAIImage u"
  by (auto simp: List.map_filter_def attachmentToOpenAIImage_def Let_def split: if_splits)

lemma messageToAnthropicContent_blocks:
  "attachments m = Some atts \<Longrightarrow> list_ex (\<lambda>a. att_type a = ''image'') atts \<Longrightarrow>
   messageToAnthropicContent m =
     ContentBlocks (List.map_filter attachmentToAnthropicImage atts
                    @ (if content m \<noteq> [] then [AnthropicText (content m)] else []))"
  by (simp add: messageToAnthropicContent_def hasImageAttachments_def
        anthropic_push_images_eq truthy_def)

lemma messageToOpenAIContent_blocks:
  "attachments m = Some atts \<Longrightarrow> list_ex (\<lambda>a. att_type a = ''image'') atts \<Longrightarrow>
   messageToOpenAIContent m =
     ContentBlocks ((if content m \<noteq> [] then [OpenAIText (content m)] else [])
                    @ List.map_filter attachmentToOpenAIImage atts)"
  by (simp add: messageToOpenAIContent_def hasImageAttachments_def
        openai_push_images_eq truthy_def)

section \<open>Plain string or content blocks\<close>

text \<open>
  C2.  \<^verbatim>\<open>messageToOpenAIContent\<close> and \<^verbatim>\<open>messageToAnthropicContent\<close> return a
  block array only when the message has at least one attachment, and return the
  message's content unchanged as a plain string whenever it has none (an absent
  or an empty attachment list).
\<close>

theorem blocks_only_with_attachments:
  "(messageToOpenAIContent m = ContentBlocks bs \<longrightarrow>
      (\<exists>atts. attachments m = Some atts \<and> atts \<noteq> []))
   \<and> (messageToAnthropicContent m = ContentBlocks cs \<longrightarrow>
      (\<exists>atts. attachments m = Some atts \<and> atts \<noteq> []))
   \<and> (attachments m = None \<or> attachments m = Some [] \<longrightarrow>
      messageToOpenAIContent m = PlainString (content m)
      \<and> messageToAnthropicContent m = PlainString (content m))"
  by (auto simp: messageToOpenAIContent_def messageToAnthropicContent_def
        hasImageAttachments_def Let_def split: option.splits if_splits)

theorem blocks_only_with_attachments_witness:
  "messageToOpenAIContent
     \<lparr>role = ''user'', content = ''hi'',
      attachments = Some [\<lparr>att_type = ''image'', att_data = ''QUJD'', mimeType = Some ''image/png''\<rparr>]\<rparr>
     = ContentBlocks
         [OpenAIText ''hi'',
          OpenAIImage \<lparr>url = ''data:image/png;base64,QUJD'', detail = Some ''auto''\<rparr>]
   \<and> messageToAnthropicContent
     \<lparr>role = ''user'', content = ''hi'',
      attachments = Some [\<lparr>att_type = ''image'', att_data = ''QUJD'', mimeType = Some ''image/png''\<rparr>]\<rparr>
     = ContentBlocks
         [AnthropicImage
            \<lparr>source_type = ''base64'', media_type = ''image/png'', source_data = ''QUJD''\<rparr>,
          AnthropicText ''hi'']
   \<and> messageToOpenAIContent \<lparr>role = ''user'', content = ''hi'', attachments = None\<rparr>
     = PlainString ''hi''
   \<and> messageToAnthropicContent \<lparr>role = ''user'', content = ''hi'', attachments = Some []\<rparr>
     = PlainString ''hi''"
proof -
  let ?m = "\<lparr>role = ''user'', content = ''hi'',
      attachments = Some [\<lparr>att_type = ''image'', att_data = ''QUJD'', mimeType = Some ''image/png''\<rparr>]\<rparr>"
  let ?n = "\<lparr>role = ''user'', content = ''hi'', attachments = None\<rparr>"
  let ?e = "\<lparr>role = ''user'', content = ''hi'', attachments = Some []\<rparr>"
  have n: "attachments ?n = None \<or> attachments ?n = Some []"
    and e: "attachments ?e = None \<or> attachments ?e = Some []" by simp_all
  have blocks: "messageToOpenAIContent ?m = ContentBlocks
         [OpenAIText ''hi'',
          OpenAIImage \<lparr>url = ''data:image/png;base64,QUJD'', detail = Some ''auto''\<rparr>]"
    "messageToAnthropicContent ?m = ContentBlocks
         [AnthropicImage
            \<lparr>source_type = ''base64'', media_type = ''image/png'', source_data = ''QUJD''\<rparr>,
          AnthropicText ''hi'']"
    by (simp_all add: adapter_defs)
  from blocks_only_with_attachments [of ?m _ _] blocks
  have "\<exists>atts. attachments ?m = Some atts \<and> atts \<noteq> []" by blast
  with blocks blocks_only_with_attachments [of ?n] blocks_only_with_attachments [of ?e] n e
  show ?thesis by simp
qed

section \<open>Order of image and text blocks\<close>

lemma map_filter_anthropic_per_image:
  "map Some (List.map_filter attachmentToAnthropicImage atts)
     = map attachmentToAnthropicImage (filter (\<lambda>a. att_type a = ''image'') atts)"
  by (induction atts)
     (auto simp: List.map_filter_simps attachmentToAnthropicImage_def Let_def)

lemma map_filter_openai_per_image:
  "map Some (List.map_filter attachmentToOpenAIImage atts)
     = map attachmentToOpenAIImage (filter (\<lambda>a. att_type a = ''image'') atts)"
  by (induction atts)
     (auto simp: List.map_filter_simps attachmentToOpenAIImage_def Let_def)

text \<open>
  C6.  For a message with at least one image attachment and non-empty text, the
  Anthropic content is the image blocks of all its image attachments, in the
  order of the attachments, followed by the text block, and the OpenAI content is
  the text block followed by the image blocks of all its image attachments, in
  the order of the attachments.  There is one image block for each image
  attachment (the one \<^verbatim>\<open>attachmentToAnthropicImage\<close>, respectively
  \<^verbatim>\<open>attachmentToOpenAIImage\<close>, makes of it), and none for any other attachment.
\<close>

theorem image_text_order:
  assumes "attachments m = Some atts"
    and "\<exists>a\<in>set atts. att_type a = ''image''"
    and "content m \<noteq> []"
  shows "messageToAnthropicContent m
           = ContentBlocks (List.map_filter attachmentToAnthropicImage atts
                            @ [AnthropicText (content m)])
       \<and> messageToOpenAIContent m
           = ContentBlocks (OpenAIText (content m)
                            # List.map_filter attachmentToOpenAIImage atts)
       \<and> map Some (List.map_filter attachmentToAnthropicImage atts)
           = map attachmentToAnthropicImage (filter (\<lambda>a. att_type a = ''image'') atts)
       \<and> map Some (List.map_filter attachmentToOpenAIImage atts)
           = map attachmentToOpenAIImage (filter (\<lambda>a. att_type a = ''image'') atts)
       \<and> List.map_filter attachmentToAnthropicImage atts \<noteq> []
       \<and> List.map_filter attachmentToOpenAIImage atts \<noteq> []
       \<and> (\<forall>b\<in>set (List.map_filter attachmentToAnthropicImage atts). \<exists>src. b = AnthropicImage src)
       \<and> (\<forall>b\<in>set (List.map_filter attachmentToOpenAIImage atts). \<exists>u. b = OpenAIImage u)"
proof -
  from assms(2) have ex: "list_ex (\<lambda>a. att_type a = ''image'') atts"
    by (simp add: list_ex_iff)
  let ?ai = "List.map_filter attachmentToAnthropicImage atts"
  let ?oi = "List.map_filter attachmentToOpenAIImage atts"
  have "messageToAnthropicContent m = ContentBlocks (?ai @ [AnthropicText (content m)])"
    using messageToAnthropicContent_blocks [OF assms(1) ex] assms(3) by simp
  moreover have "messageToOpenAIContent m = ContentBlocks (OpenAIText (content m) # ?oi)"
    using messageToOpenAIContent_blocks [OF assms(1) ex] assms(3) by simp
  moreover have "?ai \<noteq> []"
    using ex by (simp add: map_filter_image_nonempty_anthropic)
  moreover have "?oi \<noteq> []"
    using ex by (simp add: map_filter_image_nonempty_openai)
  moreover have "\<forall>b\<in>set ?ai. \<exists>src. b = AnthropicImage src"
    using map_filter_anthropic_images by blast
  moreover have "\<forall>b\<in>set ?oi. \<exists>u. b = OpenAIImage u"
    using map_filter_openai_images by blast
  ultimately show ?thesis
    using map_filter_anthropic_per_image [of atts] map_filter_openai_per_image [of atts]
    by blast
qed

theorem image_text_order_witness:
  "messageToAnthropicContent
     \<lparr>role = ''user'', content = ''hi'',
      attachments = Some [\<lparr>att_type = ''image'', att_data = ''QUJD'', mimeType = Some ''image/png''\<rparr>,
                          \<lparr>att_type = ''file'', att_data = ''eA=='', mimeType = Some ''text/plain''\<rparr>,
                          \<lparr>att_type = ''image'', att_data = ''REVG'', mimeType = Some ''image/jpeg''\<rparr>]\<rparr>
     = ContentBlocks
         [AnthropicImage
            \<lparr>source_type = ''base64'', media_type = ''image/png'', source_data = ''QUJD''\<rparr>,
          AnthropicImage
            \<lparr>source_type = ''base64'', media_type = ''image/jpeg'', source_data = ''REVG''\<rparr>,
          AnthropicText ''hi'']
   \<and> messageToOpenAIContent
     \<lparr>role = ''user'', content = ''hi'',
      attachments = Some [\<lparr>att_type = ''image'', att_data = ''QUJD'', mimeType = Some ''image/png''\<rparr>,
                          \<lparr>att_type = ''file'', att_data = ''eA=='', mimeType = Some ''text/plain''\<rparr>,
                          \<lparr>att_type = ''image'', att_data = ''REVG'', mimeType = Some ''image/jpeg''\<rparr>]\<rparr>
     = ContentBlocks
         [OpenAIText ''hi'',
          OpenAIImage \<lparr>url = ''data:image/png;base64,QUJD'', detail = Some ''auto''\<rparr>,
          OpenAIImage \<lparr>url = ''data:image/jpeg;base64,REVG'', detail = Some ''auto''\<rparr>]"
proof -
  let ?atts = "[\<lparr>att_type = ''image'', att_data = ''QUJD'', mimeType = Some ''image/png''\<rparr>,
                \<lparr>att_type = ''file'', att_data = ''eA=='', mimeType = Some ''text/plain''\<rparr>,
                \<lparr>att_type = ''image'', att_data = ''REVG'', mimeType = Some ''image/jpeg''\<rparr>]"
  let ?m = "\<lparr>role = ''user'', content = ''hi'', attachments = Some ?atts\<rparr>"
  have h1: "attachments ?m = Some ?atts" by simp
  have h2: "\<exists>a\<in>set ?atts. att_type a = ''image''" by simp
  have h3: "content ?m \<noteq> []" by simp
  have ai: "List.map_filter attachmentToAnthropicImage ?atts
      = [AnthropicImage
           \<lparr>source_type = ''base64'', media_type = ''image/png'', source_data = ''QUJD''\<rparr>,
         AnthropicImage
           \<lparr>source_type = ''base64'', media_type = ''image/jpeg'', source_data = ''REVG''\<rparr>]"
    by (simp add: List.map_filter_simps adapter_defs)
  have oi: "List.map_filter attachmentToOpenAIImage ?atts
      = [OpenAIImage \<lparr>url = ''data:image/png;base64,QUJD'', detail = Some ''auto''\<rparr>,
         OpenAIImage \<lparr>url = ''data:image/jpeg;base64,REVG'', detail = Some ''auto''\<rparr>]"
    by (simp add: List.map_filter_simps adapter_defs)
  from image_text_order [OF h1 h2 h3] show ?thesis
    unfolding ai oi by simp
qed

section \<open>Placement of the system prompt\<close>

text \<open>
  C5.  With a non-empty system prompt, \<^verbatim>\<open>formatMessages\<close> and
  \<^verbatim>\<open>formatMessagesForOpenAI\<close> put it first, with role \<^verbatim>\<open>system\<close>, followed by the
  conversation messages in order; \<^verbatim>\<open>formatMessagesForAnthropic\<close> returns it as the
  separate \<^verbatim>\<open>system\<close> field and its message list holds the messages whose role is
  not \<^verbatim>\<open>system\<close>, in order.
\<close>

theorem system_prompt_placement:
  assumes "sp \<noteq> []"
  shows "formatMessages msgs (Some sp) =
           \<lparr>out_role = ''system'', out_content = sp\<rparr>
           # map (\<lambda>m. \<lparr>out_role = role m, out_content = content m\<rparr>) msgs
       \<and> formatMessagesForOpenAI msgs (Some sp) =
           \<lparr>out_role = ''system'', out_content = PlainString sp\<rparr>
           # map (\<lambda>m. \<lparr>out_role = role m, out_content = messageToOpenAIContent m\<rparr>) msgs
       \<and> system (formatMessagesForAnthropic msgs (Some sp)) = sp
       \<and> (\<forall>fm\<in>set (messages (formatMessagesForAnthropic msgs (Some sp))).
             out_role fm \<noteq> ''system'')
       \<and> map out_content (messages (formatMessagesForAnthropic msgs (Some sp))) =
           map messageToAnthropicContent (filter (\<lambda>m. role m \<noteq> ''system'') msgs)"
  using assms
  by (auto simp: formatMessages_def formatMessagesForOpenAI_def formatMessagesForAnthropic_def
        formatMessages_loop_eq formatMessagesForOpenAI_loop_eq
        formatMessagesForAnthropic_loop_eq truthy_def or_else_def comp_def)

theorem system_prompt_placement_witness:
  "formatMessages
     [\<lparr>role = ''system'', content = ''s'', attachments = None\<rparr>,
      \<lparr>role = ''user'', content = ''hi'', attachments = None\<rparr>] (Some ''Be brief'')
     = [\<lparr>out_role = ''system'', out_content = ''Be brief''\<rparr>,
        \<lparr>out_role = ''system'', out_content = ''s''\<rparr>,
        \<lparr>out_role = ''user'', out_content = ''hi''\<rparr>]
   \<and> formatMessagesForOpenAI
     [\<lparr>role = ''system'', content = ''s'', attachments = None\<rparr>,
      \<lparr>role = ''user'', content = ''hi'', attachments = None\<rparr>] (Some ''Be brief'')
     = [\<lparr>out_role = ''system'', out_content = PlainString ''Be brief''\<rparr>,
        \<lparr>out_role = ''system'', out_content = PlainString ''s''\<rparr>,
        \<lparr>out_role = ''user'', out_content = PlainString ''hi''\<rparr>]
   \<and> formatMessagesForAnthropic
     [\<lparr>role = ''system'', content = ''s'', attachments = None\<rparr>,
      \<lparr>role = ''user'', content = ''hi'', attachments = None\<rparr>] (Some ''Be brief'')
     = \<lparr>system = ''Be brief'',
        messages = [\<lparr>out_role = ''user'', out_content = PlainString ''hi''\<rparr>]\<rparr>"
proof -
  have h: "''Be brief'' \<noteq> []" by simp
  from system_prompt_placement [OF h] show ?thesis
    by (simp add: adapter_defs)
qed

section \<open>Roles of the Anthropic message list\<close>

text \<open>
  C9.  Every message returned by \<^verbatim>\<open>formatMessagesForAnthropic\<close> has role
  \<^verbatim>\<open>assistant\<close> or \<^verbatim>\<open>user\<close>: system messages are dropped, assistant messages keep
  their role, and every other role becomes \<^verbatim>\<open>user\<close>.
\<close>

theorem anthropic_roles:
  "map out_role (messages (formatMessagesForAnthropic msgs sp)) =
     map (\<lambda>m. if role m = ''assistant'' then ''assistant'' else ''user'')
       (filter (\<lambda>m. role m \<noteq> ''system'') msgs)
   \<and> (\<forall>fm\<in>set (messages (formatMessagesForAnthropic msgs sp)).
         out_role fm = ''assistant'' \<or> out_role fm = ''user'')"
  by (auto simp: formatMessagesForAnthropic_def formatMessagesForAnthropic_loop_eq comp_def)

theorem anthropic_roles_witness:
  "map out_role (messages (formatMessagesForAnthropic
     [\<lparr>role = ''system'', content = ''s'', attachments = None\<rparr>,
      \<lparr>role = ''user'', content = ''hi'', attachments = None\<rparr>,
      \<lparr>role = ''assistant'', content = ''yo'', attachments = None\<rparr>,
      \<lparr>role = ''tool'', content = ''{}'', attachments = None\<rparr>] None))
     = [''user'', ''assistant'', ''user'']"
  using anthropic_roles [of
     "[\<lparr>role = ''system'', content = ''s'', attachments = None\<rparr>,
      \<lparr>role = ''user'', content = ''hi'', attachments = None\<rparr>,
      \<lparr>role = ''assistant'', content = ''yo'', attachments = None\<rparr>,
      \<lparr>role = ''tool'', content = ''{}'', attachments = None\<rparr>]" None]
  by simp

section \<open>Data-URI prefix\<close>

text \<open>
  A payload that starts with \<^verbatim>\<open>data:\<close> but has no comma keeps its \<^verbatim>\<open>data:\<close> start
  in \<^verbatim>\<open>source.data\<close>: the source strips only when \<^verbatim>\<open>indexOf(",")\<close> finds a
  comma.  A payload that starts with \<^verbatim>\<open>data:\<close> goes into \<^verbatim>\<open>image_url.url\<close> as it
  is, also when it has no \<^verbatim>\<open>;base64,\<close> part.
\<close>

theorem data_uri_prefix_counterexample:
  "attachmentToAnthropicImage
     \<lparr>att_type = ''image'', att_data = ''data:image/png;base64'', mimeType = Some ''image/png''\<rparr>
     = Some (AnthropicImage
         \<lparr>source_type = ''base64'', media_type = ''image/png'',
          source_data = ''data:image/png;base64''\<rparr>)
   \<and> startsWith ''data:image/png;base64'' ''data:''
   \<and> attachmentToOpenAIImage
     \<lparr>att_type = ''image'', att_data = ''data:image/svg+xml,<svg/>'',
      mimeType = Some ''image/svg+xml''\<rparr>
     = Some (OpenAIImage \<lparr>url = ''data:image/svg+xml,<svg/>'', detail = Some ''auto''\<rparr>)
   \<and> \<not> startsWith ''data:image/svg+xml,<svg/>'' ''data:image/svg+xml;base64,''"
  by (simp add: attachmentToAnthropicImage_def attachmentToOpenAIImage_def Let_def
        startsWith_def indexOf_def or_else_def truthy_def)

text \<open>
  C3.  For an image attachment, \<^verbatim>\<open>attachmentToAnthropicImage\<close> puts into
  \<^verbatim>\<open>source.data\<close> the payload behind the first comma when the payload starts with
  \<^verbatim>\<open>data:\<close> and has a comma (the data-URI prefix, \<^verbatim>\<open>data:\<close> up to the first comma,
  is stripped), and the payload as it is otherwise, that is, when it does not
  start with \<^verbatim>\<open>data:\<close> or has no comma.  \<^verbatim>\<open>attachmentToOpenAIImage\<close> produces a
  URL that starts with \<^verbatim>\<open>data:\<close>: the payload verbatim when it already starts with
  \<^verbatim>\<open>data:\<close>, whatever follows, and otherwise the payload behind the prefix
  \<^verbatim>\<open>data:<mimeType>;base64,\<close>, with \<^verbatim>\<open>image/png\<close> for an absent or empty
  \<^verbatim>\<open>mimeType\<close>.
\<close>

theorem data_uri_handling:
  assumes "att_type a = ''image''"
  shows "(\<exists>src. attachmentToAnthropicImage a = Some (AnthropicImage src)
           \<and> (\<not> startsWith (att_data a) ''data:'' \<longrightarrow> source_data src = att_data a)
           \<and> (att_data a = ''data:'' @ h @ '','' @ p \<and> CHR '','' \<notin> set h \<longrightarrow> source_data src = p)
           \<and> (startsWith (att_data a) ''data:'' \<and> CHR '','' \<notin> set (att_data a) \<longrightarrow>
                source_data src = att_data a))
       \<and> (\<exists>u. attachmentToOpenAIImage a = Some (OpenAIImage u)
           \<and> startsWith (url u) ''data:''
           \<and> (startsWith (att_data a) ''data:'' \<longrightarrow> url u = att_data a)
           \<and> (\<not> startsWith (att_data a) ''data:'' \<and> mimeType a = Some mt \<and> mt \<noteq> [] \<longrightarrow>
                url u = ''data:'' @ mt @ '';base64,'' @ att_data a)
           \<and> (\<not> startsWith (att_data a) ''data:'' \<and> (mimeType a = None \<or> mimeType a = Some []) \<longrightarrow>
                url u = ''data:image/png;base64,'' @ att_data a))"
proof -
  have strip: "slice (att_data a) (indexOf (att_data a) (CHR '','') + 1) = p"
    if "att_data a = ''data:'' @ h @ '','' @ p" "CHR '','' \<notin> set h"
    using that slice_strips_prefix [of "CHR '',''" "''data:'' @ h" p] by simp
  have found: "indexOf (att_data a) (CHR '','') \<noteq> - 1"
    if "att_data a = ''data:'' @ h @ '','' @ p"
    using that by (simp add: indexOf_absent_iff)
  show ?thesis
    using assms strip found
    by (auto simp: attachmentToAnthropicImage_def attachmentToOpenAIImage_def Let_def
          indexOf_absent_iff or_else_def truthy_def startsWith_append
          startsWith_append [of "''data:''", simplified])
qed

theorem data_uri_handling_witness:
  "attachmentToAnthropicImage
     \<lparr>att_type = ''image'', att_data = ''data:image/png;base64,QUJD'', mimeType = Some ''image/png''\<rparr>
     = Some (AnthropicImage
         \<lparr>source_type = ''base64'', media_type = ''image/png'', source_data = ''QUJD''\<rparr>)
   \<and> attachmentToOpenAIImage
     \<lparr>att_type = ''image'', att_data = ''data:image/png;base64,QUJD'', mimeType = Some ''image/png''\<rparr>
     = Some (OpenAIImage \<lparr>url = ''data:image/png;base64,QUJD'', detail = Some ''auto''\<rparr>)
   \<and> attachmentToOpenAIImage
     \<lparr>att_type = ''image'', att_data = ''QUJD'', mimeType = Some ''image/jpeg''\<rparr>
     = Some (OpenAIImage \<lparr>url = ''data:image/jpeg;base64,QUJD'', detail = Some ''auto''\<rparr>)"
proof -
  let ?a = "\<lparr>att_type = ''image'', att_data = ''data:image/png;base64,QUJD'',
             mimeType = Some ''image/png''\<rparr>"
  let ?b = "\<lparr>att_type = ''image'', att_data = ''QUJD'', mimeType = Some ''image/jpeg''\<rparr>"
  have a: "att_type ?a = ''image''" and b: "att_type ?b = ''image''" by simp_all
  have shape: "att_data ?a = ''data:'' @ ''image/png;base64'' @ '','' @ ''QUJD''
       \<and> CHR '','' \<notin> set ''image/png;base64''" by simp
  have sa: "startsWith (att_data ?a) ''data:''" and sb: "\<not> startsWith (att_data ?b) ''data:''"
    by (simp_all add: startsWith_def)
  from data_uri_handling [OF a, of "''image/png;base64''" "''QUJD''" "''image/png''"]
    data_uri_handling [OF b, of "[]" "[]" "''image/jpeg''"] shape sa sb
  show ?thesis
    by (auto simp: attachmentToAnthropicImage_def attachmentToOpenAIImage_def Let_def or_else_def truthy_def)
qed

section \<open>Tools without parameters\<close>

text \<open>
  C4.  For an action definition with no parameters (the field absent, or an empty
  object), \<^verbatim>\<open>formatTools\<close> emits a function schema whose \<^verbatim>\<open>parameters\<close> object is
  present, with type \<^verbatim>\<open>object\<close>, an empty \<^verbatim>\<open>properties\<close> object and an empty
  \<^verbatim>\<open>required\<close> list.
\<close>

theorem formatTools_no_parameters:
  assumes "i < length actions"
    and "parameters (actions ! i) = None \<or> parameters (actions ! i) = Some []"
  shows "length (formatTools actions) = length actions
    \<and> formatTools actions ! i =
        JObject
          [(''type'', JString ''function''),
           (''function'',
            JObject
              [(''name'', JString (name (actions ! i))),
               (''description'', JString (description (actions ! i))),
               (''parameters'',
                JObject
                  [(''type'', JString ''object''),
                   (''properties'', JObject []),
                   (''required'', JArray [])])])]"
  using assms by (auto simp: formatTools_def)

theorem formatTools_no_parameters_witness:
  "formatTools
     [\<lparr>name = ''ping'', description = ''Ping the server'', parameters = None\<rparr>,
      \<lparr>name = ''now'', description = ''Current time'', parameters = Some []\<rparr>]
   = [JObject
        [(''type'', JString ''function''),
         (''function'',
          JObject
            [(''name'', JString ''ping''),
             (''description'', JString ''Ping the server''),
             (''parameters'',
              JObject
                [(''type'', JString ''object''),
                 (''properties'', JObject []),
                 (''required'', JArray [])])])],
      JObject
        [(''type'', JString ''function''),
         (''function'',
          JObject
            [(''name'', JString ''now''),
             (''description'', JString ''Current time''),
             (''parameters'',
              JObject
                [(''type'', JString ''object''),
                 (''properties'', JObject []),
                 (''required'', JArray [])])])]]"
proof -
  let ?as = "[\<lparr>name = ''ping'', description = ''Ping the server'', parameters = None\<rparr>,
      \<lparr>name = ''now'', description = ''Current time'', parameters = Some []\<rparr>]"
  have i0: "0 < length ?as" and i1: "1 < length ?as" by simp_all
  have p0: "parameters (?as ! 0) = None \<or> parameters (?as ! 0) = Some []"
    and p1: "parameters (?as ! 1) = None \<or> parameters (?as ! 1) = Some []" by simp_all
  from formatTools_no_parameters [OF i0 p0] formatTools_no_parameters [OF i1 p1]
  show ?thesis
    by (simp add: list_eq_iff_nth_eq less_Suc_eq)
qed

section \<open>Recursive conversion of parameters\<close>

lemma schema_fields:
  "field (JObject (parameterToJsonSchema p)) ''type'' = Some (JString (param_type p))"
  "param_description p = Some d \<Longrightarrow> d \<noteq> [] \<Longrightarrow>
     field (JObject (parameterToJsonSchema p)) ''description'' = Some (JString d)"
  "param_enum p = Some e \<Longrightarrow>
     field (JObject (parameterToJsonSchema p)) ''enum'' = Some (JArray (map JString e))"
  "param_type p = ''array'' \<Longrightarrow> param_items p = Some it \<Longrightarrow>
     field (JObject (parameterToJsonSchema p)) ''items''
       = Some (JObject (parameterToJsonSchema it))"
  "param_type p = ''object'' \<Longrightarrow> param_properties p = Some ps \<Longrightarrow>
     field (JObject (parameterToJsonSchema p)) ''properties''
       = Some (JObject (map (\<lambda>(key, q). (key, JObject (parameterToJsonSchema q))) ps))"
  by (cases p; auto simp: truthy_def split: option.splits)+

lemma map_of_schema_entries:
  "map_of (map (\<lambda>(key, q). (key, JObject (parameterToJsonSchema q))) ps) k
     = map_option (\<lambda>q. JObject (parameterToJsonSchema q)) (map_of ps k)"
  by (induction ps) auto

lemma schema_at_depth:
  "param_at p path = Some q \<Longrightarrow>
   schema_at (JObject (parameterToJsonSchema p)) path = Some (JObject (parameterToJsonSchema q))"
proof (induction path arbitrary: p)
  case Nil
  then show ?case by simp
next
  case (Cons step path)
  show ?case
  proof (cases step)
    case Items
    with Cons.prems obtain it where it: "param_type p = ''array''" "param_items p = Some it"
      "param_at it path = Some q"
      by (auto split: if_splits option.splits)
    from Cons.IH [OF it(3)] schema_fields(4) [OF it(1,2)] Items show ?thesis by simp
  next
    case (Property key)
    with Cons.prems obtain ps r where ps: "param_type p = ''object''"
      "param_properties p = Some ps" "map_of ps key = Some r" "param_at r path = Some q"
      by (auto split: if_splits option.splits)
    from Cons.IH [OF ps(4)] schema_fields(5) [OF ps(1,2)] ps(3) Property show ?thesis
      by (simp add: map_of_schema_entries)
  qed
qed

text \<open>
  A description that is present but empty is left out of the schema: the source
  tests \<^verbatim>\<open>if (param.description)\<close>, and the empty string is falsy.
\<close>

theorem description_copied_counterexample:
  "param_description (ActionParameter ''string'' (Some []) None None None None) = Some []
   \<and> field (JObject (parameterToJsonSchema
        (ActionParameter ''string'' (Some []) None None None None))) ''description'' = None"
  by (simp add: truthy_def)

text \<open>
  C7.  \<^verbatim>\<open>parameterToJsonSchema\<close> converts a parameter recursively: the type is
  copied; the description is copied when it is present and not empty; the enum is
  copied when present; an array parameter's \<^verbatim>\<open>items\<close> schema is the conversion of
  its items; an object parameter's \<^verbatim>\<open>properties\<close> are the conversions of its
  properties under the same keys, in the same order; hence the schema found along
  any path is the conversion of the parameter found along that path; and
  \<^verbatim>\<open>formatTools\<close> converts each parameter of an action this way.
\<close>

theorem parameterToJsonSchema_recursive:
  "field (JObject (parameterToJsonSchema p)) ''type'' = Some (JString (param_type p))
   \<and> (param_description p = Some d \<and> d \<noteq> [] \<longrightarrow>
        field (JObject (parameterToJsonSchema p)) ''description'' = Some (JString d))
   \<and> (param_enum p = Some e \<longrightarrow>
        field (JObject (parameterToJsonSchema p)) ''enum'' = Some (JArray (map JString e)))
   \<and> (param_type p = ''array'' \<and> param_items p = Some it \<longrightarrow>
        field (JObject (parameterToJsonSchema p)) ''items''
          = Some (JObject (parameterToJsonSchema it)))
   \<and> (param_type p = ''object'' \<and> param_properties p = Some ps \<longrightarrow>
        field (JObject (parameterToJsonSchema p)) ''properties''
          = Some (JObject (map (\<lambda>(key, q). (key, JObject (parameterToJsonSchema q))) ps)))
   \<and> (param_at p path = Some q \<longrightarrow>
        schema_at (JObject (parameterToJsonSchema p)) path
          = Some (JObject (parameterToJsonSchema q)))
   \<and> (parameters action = Some params \<longrightarrow>
        (\<exists>fn pj. field (hd (formatTools [action])) ''function'' = Some fn
           \<and> field fn ''parameters'' = Some pj
           \<and> field pj ''properties''
               = Some (JObject (map (\<lambda>(key, q). (key, JObject (parameterToJsonSchema q))) params))))"
  using schema_fields [of p] schema_at_depth [of p path q]
  by (simp add: formatTools_def)

theorem parameterToJsonSchema_recursive_witness:
  "parameterToJsonSchema
     (ActionParameter ''object'' (Some ''Options'') None None
        (Some [(''tags'',
                ActionParameter ''array'' None None
                  (Some (ActionParameter ''string'' None (Some [''a'', ''b'']) None None None))
                  None None)])
        None)
   = [(''type'', JString ''object''),
      (''description'', JString ''Options''),
      (''properties'',
       JObject
         [(''tags'',
           JObject
             [(''type'', JString ''array''),
              (''items'',
               JObject
                 [(''type'', JString ''string''),
                  (''enum'', JArray [JString ''a'', JString ''b''])])])])]
   \<and> schema_at
       (JObject (parameterToJsonSchema
         (ActionParameter ''object'' (Some ''Options'') None None
            (Some [(''tags'',
                    ActionParameter ''array'' None None
                      (Some (ActionParameter ''string'' None (Some [''a'', ''b'']) None None None))
                      None None)])
            None)))
       [Property ''tags'', Items]
     = Some (JObject [(''type'', JString ''string''),
                      (''enum'', JArray [JString ''a'', JString ''b''])])
   \<and> field (JObject (parameterToJsonSchema
        (ActionParameter ''string'' None (Some [''a'', ''b'']) None None None))) ''enum''
     = Some (JArray [JString ''a'', JString ''b''])
   \<and> field (JObject (parameterToJsonSchema
        (ActionParameter ''array'' None None
           (Some (ActionParameter ''string'' None (Some [''a'', ''b'']) None None None))
           None None))) ''items''
     = Some (JObject [(''type'', JString ''string''),
                      (''enum'', JArray [JString ''a'', JString ''b''])])"
proof -
  let ?s = "ActionParameter ''string'' None (Some [''a'', ''b'']) None None None"
  let ?t = "ActionParameter ''array'' None None (Some ?s) None None"
  let ?ps = "[(''tags'', ?t)]"
  let ?o = "ActionParameter ''object'' (Some ''Options'') None None (Some ?ps) None"
  let ?act = "\<lparr>name = ''f'', description = ''g'', parameters = Some ?ps\<rparr>"
  have at: "param_at ?o [Property ''tags'', Items] = Some ?s" by simp
  from parameterToJsonSchema_recursive
         [of ?o "''Options''" "[]" ?s ?ps "[Property ''tags'', Items]" ?s ?act ?ps]
       parameterToJsonSchema_recursive
         [of ?t "''x''" "[]" ?s "[]" "[]" ?t ?act ?ps]
       parameterToJsonSchema_recursive
         [of ?s "''x''" "[''a'', ''b'']" ?s "[]" "[]" ?s ?act ?ps]
       at
  show ?thesis by (simp add: truthy_def)
qed

section \<open>The formatting functions leave their arguments alone\<close>

lemma run_read_attachment: "run_state (read_attachment r f) s = (f (attachment_at s r), s)"
  by (simp add: read_attachment_def)

lemma run_read_message: "run_state (read_message r f) s = (f (message_at s r), s)"
  by (simp add: read_message_def)

lemma run_attachmentToAnthropicImage_st:
  "run_state (attachmentToAnthropicImage_st r) s =
     (attachmentToAnthropicImage (attachment_at s r), s)"
  by (simp add: attachmentToAnthropicImage_st_def attachmentToAnthropicImage_def
        run_read_attachment Let_def)

lemma run_attachmentToOpenAIImage_st:
  "run_state (attachmentToOpenAIImage_st r) s =
     (attachmentToOpenAIImage (attachment_at s r), s)"
  by (simp add: attachmentToOpenAIImage_st_def attachmentToOpenAIImage_def
        run_read_attachment Let_def)

lemma run_some_image_st:
  "run_state (some_image_st refs) s =
     (list_ex (\<lambda>a. att_type a = ''image'') (map (attachment_at s) refs), s)"
  by (induction refs) (simp_all add: run_read_attachment)

lemma run_hasImageAttachments_st:
  "run_state (hasImageAttachments_st r) s = (hasImageAttachments (message_of s r), s)"
  by (simp add: hasImageAttachments_st_def hasImageAttachments_def message_of_def
        run_read_message run_some_image_st split: option.split)

lemma run_anthropic_push_images_st:
  "run_state (anthropic_push_images_st refs blocks) s =
     (anthropic_push_images (map (attachment_at s) refs) blocks, s)"
  by (induction refs arbitrary: blocks)
     (simp_all add: run_attachmentToAnthropicImage_st split: option.split)

lemma run_openai_push_images_st:
  "run_state (openai_push_images_st refs blocks) s =
     (openai_push_images (map (attachment_at s) refs) blocks, s)"
  by (induction refs arbitrary: blocks)
     (simp_all add: run_attachmentToOpenAIImage_st split: option.split)

lemma run_messageToAnthropicContent_st:
  "run_state (messageToAnthropicContent_st r) s =
     (messageToAnthropicContent (message_of s r), s)"
  by (simp add: messageToAnthropicContent_st_def messageToAnthropicContent_def
        run_hasImageAttachments_st run_read_message run_anthropic_push_images_st
        message_of_def Let_def split: option.split)

lemma run_messageToOpenAIContent_st:
  "run_state (messageToOpenAIContent_st r) s =
     (messageToOpenAIContent (message_of s r), s)"
  by (simp add: messageToOpenAIContent_st_def messageToOpenAIContent_def
        run_hasImageAttachments_st run_read_message run_openai_push_images_st
        message_of_def Let_def split: option.split)

text \<open>
  C8.  Run on references into a store, \<^verbatim>\<open>attachmentToAnthropicImage\<close>,
  \<^verbatim>\<open>attachmentToOpenAIImage\<close>, \<^verbatim>\<open>messageToAnthropicContent\<close> and
  \<^verbatim>\<open>messageToOpenAIContent\<close> return the store they were given: no attachment's
  \<^verbatim>\<open>data\<close>, \<^verbatim>\<open>mimeType\<close> or \<^verbatim>\<open>type\<close> and no message's content or attachment list
  changes.  Their results are those of the functions on values, applied to the
  objects the references denote.
\<close>

theorem formatting_leaves_store:
  "snd (run_state (attachmentToAnthropicImage_st a) s) = s
   \<and> snd (run_state (attachmentToOpenAIImage_st a) s) = s
   \<and> snd (run_state (messageToAnthropicContent_st m) s) = s
   \<and> snd (run_state (messageToOpenAIContent_st m) s) = s
   \<and> fst (run_state (attachmentToAnthropicImage_st a) s)
       = attachmentToAnthropicImage (attachment_at s a)
   \<and> fst (run_state (attachmentToOpenAIImage_st a) s)
       = attachmentToOpenAIImage (attachment_at s a)
   \<and> fst (run_state (messageToAnthropicContent_st m) s)
       = messageToAnthropicContent (message_of s m)
   \<and> fst (run_state (messageToOpenAIContent_st m) s)
       = messageToOpenAIContent (message_of s m)"
  by (simp add: run_attachmentToAnthropicImage_st run_attachmentToOpenAIImage_st
        run_messageToAnthropicContent_st run_messageToOpenAIContent_st)

section \<open>Round trip of a message with one image\<close>

lemma startsWith_data_split: "startsWith d ''data:'' \<Longrightarrow> d = ''data:'' @ drop 5 d"
proof -
  assume sw: "startsWith d ''data:''"
  have len: "length ''data:'' = (5::nat)" by simp
  from sw have "take 5 d = ''data:''" unfolding startsWith_def len .
  then show ?thesis by (metis append_take_drop_id)
qed

lemma dropWhile_skips_data:
  assumes "startsWith d ''data:''"
  shows "dropWhile (\<lambda>x. x \<noteq> CHR '','') d = dropWhile (\<lambda>x. x \<noteq> CHR '','') (drop 5 d)"
proof -
  from assms obtain r where d: "d = ''data:'' @ r"
    using startsWith_data_split by blast
  show ?thesis unfolding d by simp
qed

lemma spec_parse_data_uri_plain:
  "\<not> startsWith d ''data:'' \<Longrightarrow> spec_parse_data_uri d = None"
  by (simp add: spec_parse_data_uri_def)

lemma spec_parse_data_uri_built:
  assumes "CHR '','' \<notin> set mt"
  shows "spec_parse_data_uri (''data:'' @ mt @ '';base64,'' @ p) = Some (mt, p)"
proof -
  let ?h = "mt @ '';base64''"
  have h: "CHR '','' \<notin> set ?h" using assms by simp
  have shape: "mt @ '';base64,'' @ p = ?h @ CHR '','' # p" by simp
  have tw: "takeWhile (\<lambda>c. c \<noteq> CHR '','') (mt @ '';base64,'' @ p) = ?h"
    unfolding shape using h by (rule takeWhile_until_first)
  have dw: "dropWhile (\<lambda>c. c \<noteq> CHR '','') (mt @ '';base64,'' @ p) = CHR '','' # p"
    unfolding shape using h by (rule dropWhile_until_first)
  have d5: "drop 5 (''data:'' @ mt @ '';base64,'' @ p) = mt @ '';base64,'' @ p" by simp
  have sw: "startsWith (''data:'' @ mt @ '';base64,'' @ p) ''data:''"
    by (rule startsWith_append)
  have mem: "CHR '','' \<in> set (''data:'' @ mt @ '';base64,'' @ p)" by simp
  show ?thesis
    unfolding spec_parse_data_uri_def Let_def d5 tw dw using sw mem by simp
qed

lemma anthropic_source_is_payload:
  assumes "att_type a = ''image''"
  shows "attachmentToAnthropicImage a =
           Some (AnthropicImage
             \<lparr>source_type = ''base64'',
              media_type = or_else (mimeType a) ''image/png'',
              source_data = spec_payload (att_data a)\<rparr>)"
proof (cases "startsWith (att_data a) ''data:'' \<and> CHR '','' \<in> set (att_data a)")
  case True
  have "slice (att_data a) (indexOf (att_data a) (CHR '','') + 1)
          = drop 1 (dropWhile (\<lambda>x. x \<noteq> CHR '','') (att_data a))"
    using True by (simp add: slice_after_first)
  also have "\<dots> = drop 1 (dropWhile (\<lambda>x. x \<noteq> CHR '','') (drop 5 (att_data a)))"
    using True by (simp add: dropWhile_skips_data)
  finally show ?thesis
    using True assms
    by (simp add: attachmentToAnthropicImage_def Let_def indexOf_absent_iff spec_payload_def
          spec_parse_data_uri_def)
next
  case False
  then show ?thesis
    using assms
    by (auto simp: attachmentToAnthropicImage_def Let_def indexOf_absent_iff spec_payload_def
          spec_parse_data_uri_def)
qed

lemma map_filter_single_anthropic:
  "filter (\<lambda>x. att_type x = ''image'') atts = [a] \<Longrightarrow>
   List.map_filter attachmentToAnthropicImage atts = [the (attachmentToAnthropicImage a)]"
proof -
  assume one: "filter (\<lambda>x. att_type x = ''image'') atts = [a]"
  have "(\<lambda>x. attachmentToAnthropicImage x \<noteq> None) = (\<lambda>x. att_type x = ''image'')"
    by (auto simp: attachmentToAnthropicImage_def Let_def)
  with one show ?thesis by (simp add: List.map_filter_def)
qed

lemma map_filter_single_openai:
  "filter (\<lambda>x. att_type x = ''image'') atts = [a] \<Longrightarrow>
   List.map_filter attachmentToOpenAIImage atts = [the (attachmentToOpenAIImage a)]"
proof -
  assume one: "filter (\<lambda>x. att_type x = ''image'') atts = [a]"
  have "(\<lambda>x. attachmentToOpenAIImage x \<noteq> None) = (\<lambda>x. att_type x = ''image'')"
    by (auto simp: attachmentToOpenAIImage_def Let_def)
  with one show ?thesis by (simp add: List.map_filter_def)
qed

lemma single_image_facts:
  assumes "filter (\<lambda>x. att_type x = ''image'') atts = [a]"
  shows "att_type a = ''image''" and "list_ex (\<lambda>x. att_type x = ''image'') atts"
proof -
  have "a \<in> set (filter (\<lambda>x. att_type x = ''image'') atts)" using assms by simp
  then show "att_type a = ''image''" by simp
  from \<open>a \<in> set (filter (\<lambda>x. att_type x = ''image'') atts)\<close>
  show "list_ex (\<lambda>x. att_type x = ''image'') atts" by (auto simp: list_ex_iff)
qed

lemma openai_url_parses:
  assumes "att_type a = ''image''" and "mimeType a = Some mt" and "mt \<noteq> []"
    and "CHR '','' \<notin> set mt"
    and "\<not> startsWith (att_data a) ''data:'' \<or> (\<exists>p. att_data a = ''data:'' @ mt @ '';base64,'' @ p)"
  shows "\<exists>u. attachmentToOpenAIImage a = Some (OpenAIImage u)
            \<and> spec_image_of_url (url u) = spec_image_of_attachment a"
proof (cases "startsWith (att_data a) ''data:''")
  case False
  let ?u = "''data:'' @ mt @ '';base64,'' @ att_data a"
  have "attachmentToOpenAIImage a = Some (OpenAIImage \<lparr>url = ?u, detail = Some ''auto''\<rparr>)"
    using False assms(1-3)
    by (simp add: attachmentToOpenAIImage_def Let_def or_else_def truthy_def)
  moreover have "spec_image_of_url ?u = \<lparr>ref_payload = att_data a, ref_media_type = Some mt\<rparr>"
    unfolding spec_image_of_url_def spec_parse_data_uri_built [OF assms(4)] by simp
  moreover have "spec_image_of_attachment a
      = \<lparr>ref_payload = att_data a, ref_media_type = Some mt\<rparr>"
    unfolding spec_image_of_attachment_def spec_payload_def spec_parse_data_uri_plain [OF False]
    using assms(2) by simp
  ultimately show ?thesis by simp
next
  case True
  with assms(5) obtain p where p: "att_data a = ''data:'' @ mt @ '';base64,'' @ p" by blast
  have "attachmentToOpenAIImage a
      = Some (OpenAIImage \<lparr>url = att_data a, detail = Some ''auto''\<rparr>)"
    using True assms(1) by (simp add: attachmentToOpenAIImage_def Let_def)
  moreover have "spec_image_of_url (att_data a) = \<lparr>ref_payload = p, ref_media_type = Some mt\<rparr>"
    unfolding p spec_image_of_url_def spec_parse_data_uri_built [OF assms(4)] by simp
  moreover have "spec_image_of_attachment a = \<lparr>ref_payload = p, ref_media_type = Some mt\<rparr>"
    unfolding spec_image_of_attachment_def spec_payload_def assms(2) p
      spec_parse_data_uri_built [OF assms(4)] by simp
  ultimately show ?thesis by simp
qed

text \<open>
  An image attachment whose \<^verbatim>\<open>mimeType\<close> is the empty string comes back as
  \<^verbatim>\<open>image/png\<close> from both providers' content.
\<close>

lemma roundtrip_empty_mime_values:
  "spec_parse_anthropic (messageToAnthropicContent
      \<lparr>role = ''user'', content = ''hi'',
       attachments = Some [\<lparr>att_type = ''image'', att_data = ''QUJD'', mimeType = Some []\<rparr>]\<rparr>)
     = (''hi'', [\<lparr>ref_payload = ''QUJD'', ref_media_type = Some ''image/png''\<rparr>])
   \<and> spec_parse_openai (messageToOpenAIContent
      \<lparr>role = ''user'', content = ''hi'',
       attachments = Some [\<lparr>att_type = ''image'', att_data = ''QUJD'', mimeType = Some []\<rparr>]\<rparr>)
     = (''hi'', [\<lparr>ref_payload = ''QUJD'', ref_media_type = Some ''image/png''\<rparr>])
   \<and> spec_image_of_attachment \<lparr>att_type = ''image'', att_data = ''QUJD'', mimeType = Some []\<rparr>
     = \<lparr>ref_payload = ''QUJD'', ref_media_type = Some []\<rparr>"
  by (simp add: adapter_defs List.map_filter_simps spec_image_of_url_def
        spec_image_of_attachment_def spec_payload_def spec_parse_data_uri_def)

theorem roundtrip_counterexample:
  "spec_parse_anthropic (messageToAnthropicContent
      \<lparr>role = ''user'', content = ''hi'',
       attachments = Some [\<lparr>att_type = ''image'', att_data = ''QUJD'', mimeType = Some []\<rparr>]\<rparr>)
     \<noteq> (''hi'',
         [spec_image_of_attachment
            \<lparr>att_type = ''image'', att_data = ''QUJD'', mimeType = Some []\<rparr>])
   \<and> spec_parse_openai (messageToOpenAIContent
      \<lparr>role = ''user'', content = ''hi'',
       attachments = Some [\<lparr>att_type = ''image'', att_data = ''QUJD'', mimeType = Some []\<rparr>]\<rparr>)
     \<noteq> (''hi'',
         [spec_image_of_attachment
            \<lparr>att_type = ''image'', att_data = ''QUJD'', mimeType = Some []\<rparr>])"
  using roundtrip_empty_mime_values by simp

text \<open>
  A payload that is already a data URI goes into the OpenAI content verbatim, so
  the media type read back is the one inside the URI, whatever \<^verbatim>\<open>mimeType\<close> says;
  the Anthropic content carries \<^verbatim>\<open>mimeType\<close>.
\<close>

lemma roundtrip_openai_embedded_type_example:
  "spec_parse_openai (messageToOpenAIContent
      \<lparr>role = ''user'', content = ''hi'',
       attachments = Some [\<lparr>att_type = ''image'', att_data = ''data:image/jpeg;base64,QUJD'',
                            mimeType = Some ''image/png''\<rparr>]\<rparr>)
     = (''hi'', [\<lparr>ref_payload = ''QUJD'', ref_media_type = Some ''image/jpeg''\<rparr>])
   \<and> spec_parse_anthropic (messageToAnthropicContent
      \<lparr>role = ''user'', content = ''hi'',
       attachments = Some [\<lparr>att_type = ''image'', att_data = ''data:image/jpeg;base64,QUJD'',
                            mimeType = Some ''image/png''\<rparr>]\<rparr>)
     = (''hi'', [\<lparr>ref_payload = ''QUJD'', ref_media_type = Some ''image/png''\<rparr>])"
  by (simp add: adapter_defs List.map_filter_simps spec_image_of_url_def
        spec_parse_data_uri_def)

text \<open>
  C1.  For a message with exactly one image attachment whose \<^verbatim>\<open>mimeType\<close> is
  present and not empty, formatting through the Anthropic adapter and reading the
  content back gives the message text and an image reference with the
  attachment's base64 payload and media type.  Through the OpenAI adapter the same
  holds when the \<^verbatim>\<open>mimeType\<close> has no comma and the attachment's data either does
  not start with \<^verbatim>\<open>data:\<close> or is \<^verbatim>\<open>data:<mimeType>;base64,<payload>\<close> with that
  same \<^verbatim>\<open>mimeType\<close>.
\<close>

theorem roundtrip_one_image:
  assumes "attachments m = Some atts"
    and "filter (\<lambda>x. att_type x = ''image'') atts = [a]"
    and "mimeType a = Some mt" and "mt \<noteq> []"
  shows "spec_parse_anthropic (messageToAnthropicContent m)
           = (content m, [spec_image_of_attachment a])
       \<and> (CHR '','' \<notin> set mt
            \<and> (\<not> startsWith (att_data a) ''data:''
                 \<or> (\<exists>p. att_data a = ''data:'' @ mt @ '';base64,'' @ p)) \<longrightarrow>
          spec_parse_openai (messageToOpenAIContent m)
            = (content m, [spec_image_of_attachment a]))"
proof -
  note img = single_image_facts [OF assms(2)]
  have "spec_parse_anthropic (messageToAnthropicContent m)
           = (content m, [spec_image_of_attachment a])"
    using assms(3,4)
    by (simp add: messageToAnthropicContent_blocks [OF assms(1) img(2)]
          map_filter_single_anthropic [OF assms(2)] anthropic_source_is_payload [OF img(1)]
          List.map_filter_simps spec_image_of_attachment_def or_else_def truthy_def)
  moreover have "spec_parse_openai (messageToOpenAIContent m)
            = (content m, [spec_image_of_attachment a])"
    if "CHR '','' \<notin> set mt"
      and "\<not> startsWith (att_data a) ''data:''
            \<or> (\<exists>p. att_data a = ''data:'' @ mt @ '';base64,'' @ p)"
  proof -
    from openai_url_parses [OF img(1) assms(3,4) that]
    obtain u where "attachmentToOpenAIImage a = Some (OpenAIImage u)"
      and "spec_image_of_url (url u) = spec_image_of_attachment a" by blast
    then show ?thesis
      by (simp add: messageToOpenAIContent_blocks [OF assms(1) img(2)]
            map_filter_single_openai [OF assms(2)] List.map_filter_simps)
  qed
  ultimately show ?thesis by blast
qed

theorem roundtrip_one_image_witness:
  "spec_parse_anthropic (messageToAnthropicContent
      \<lparr>role = ''user'', content = ''hi'',
       attachments = Some [\<lparr>att_type = ''file'', att_data = ''eA=='', mimeType = Some ''text/plain''\<rparr>,
                           \<lparr>att_type = ''image'', att_data = ''QUJD'', mimeType = Some ''image/png''\<rparr>]\<rparr>)
     = (''hi'', [\<lparr>ref_payload = ''QUJD'', ref_media_type = Some ''image/png''\<rparr>])
   \<and> spec_parse_openai (messageToOpenAIContent
      \<lparr>role = ''user'', content = ''hi'',
       attachments = Some [\<lparr>att_type = ''file'', att_data = ''eA=='', mimeType = Some ''text/plain''\<rparr>,
                           \<lparr>att_type = ''image'', att_data = ''QUJD'', mimeType = Some ''image/png''\<rparr>]\<rparr>)
     = (''hi'', [\<lparr>ref_payload = ''QUJD'', ref_media_type = Some ''image/png''\<rparr>])
   \<and> spec_parse_anthropic (messageToAnthropicContent
      \<lparr>role = ''user'', content = [],
       attachments = Some [\<lparr>att_type = ''image'', att_data = ''data:image/png;base64,QUJD'',
                            mimeType = Some ''image/png''\<rparr>]\<rparr>)
     = ([], [\<lparr>ref_payload = ''QUJD'', ref_media_type = Some ''image/png''\<rparr>])
   \<and> spec_parse_openai (messageToOpenAIContent
      \<lparr>role = ''user'', content = [],
       attachments = Some [\<lparr>att_type = ''image'', att_data = ''data:image/png;base64,QUJD'',
                            mimeType = Some ''image/png''\<rparr>]\<rparr>)
     = ([], [\<lparr>ref_payload = ''QUJD'', ref_media_type = Some ''image/png''\<rparr>])"
proof -
  let ?f = "\<lparr>att_type = ''file'', att_data = ''eA=='', mimeType = Some ''text/plain''\<rparr>"
  let ?a = "\<lparr>att_type = ''image'', att_data = ''QUJD'', mimeType = Some ''image/png''\<rparr>"
  let ?b = "\<lparr>att_type = ''image'', att_data = ''data:image/png;base64,QUJD'',
             mimeType = Some ''image/png''\<rparr>"
  let ?m = "\<lparr>role = ''user'', content = ''hi'', attachments = Some [?f, ?a]\<rparr>"
  let ?n = "\<lparr>role = ''user'', content = [], attachments = Some [?b]\<rparr>"
  have m1: "attachments ?m = Some [?f, ?a]" and n1: "attachments ?n = Some [?b]" by simp_all
  have m2: "filter (\<lambda>x. att_type x = ''image'') [?f, ?a] = [?a]"
    and n2: "filter (\<lambda>x. att_type x = ''image'') [?b] = [?b]" by simp_all
  have a3: "mimeType ?a = Some ''image/png''" and b3: "mimeType ?b = Some ''image/png''"
    by simp_all
  have mt: "''image/png'' \<noteq> []" and comma: "CHR '','' \<notin> set ''image/png''" by simp_all
  have raw: "\<not> startsWith (att_data ?a) ''data:''" by (simp add: startsWith_def)
  have uri: "\<exists>p. att_data ?b = ''data:'' @ ''image/png'' @ '';base64,'' @ p" by simp
  have ra: "spec_image_of_attachment ?a
      = \<lparr>ref_payload = ''QUJD'', ref_media_type = Some ''image/png''\<rparr>"
    and rb: "spec_image_of_attachment ?b
      = \<lparr>ref_payload = ''QUJD'', ref_media_type = Some ''image/png''\<rparr>"
    by (simp_all add: spec_image_of_attachment_def spec_payload_def spec_parse_data_uri_def
          startsWith_def)
  from roundtrip_one_image [OF m1 m2 a3 mt] roundtrip_one_image [OF n1 n2 b3 mt]
    comma raw uri ra rb
  show ?thesis by simp
qed

end
